theory Spec2Isabelle
  imports Main "HOL-Library.Sublist"
begin

section \<open>Python values and built-ins used by sbatch.py\<close>

text \<open>
  A Python \<open>str\<close> is modelled by the Isabelle \<open>string\<close> holding its UTF-8 encoding; for
  ASCII text this is the text itself, character by character. Concatenation is \<open>@\<close>.
  Indices count the elements of that list.
\<close>

datatype py_error = UnboundLocalError | OSError | UnicodeDecodeError

text \<open>The bound of a slice \<open>s[k:]\<close> or \<open>s[:k]\<close>: a negative bound counts from the end,
  and every bound is clamped to the string.\<close>

definition slice_bound :: "nat \<Rightarrow> int \<Rightarrow> nat" where
  "slice_bound n k = (if k < 0 then nat (max 0 (int n + k)) else min n (nat k))"

definition slice_from :: "string \<Rightarrow> int \<Rightarrow> string" where
  "slice_from s k = drop (slice_bound (length s) k) s"

definition slice_to :: "string \<Rightarrow> int \<Rightarrow> string" where
  "slice_to s k = take (slice_bound (length s) k) s"

text \<open>\<open>repr\<close> of an integer: its decimal digits, with a minus sign when negative.\<close>

fun repr_nat :: "nat \<Rightarrow> string" where
  "repr_nat n =
     (if n < 10 then [''0123456789'' ! n]
      else repr_nat (n div 10) @ [''0123456789'' ! (n mod 10)])"

definition repr_int :: "int \<Rightarrow> string" where
  "repr_int i = (if i < 0 then ''-'' @ repr_nat (nat (- i)) else repr_nat (nat i))"

text \<open>The operator \<open>needle in haystack\<close> on strings.\<close>

fun str_contains :: "string \<Rightarrow> string \<Rightarrow> bool" where
  "str_contains needle [] = (needle = [])"
| "str_contains needle (c # cs) = (prefix needle (c # cs) \<or> str_contains needle cs)"


section \<open>The unique-name resolver\<close>

text \<open>
  \<^verbatim>\<open>
  def getLastDot(U_str):
      for i in reversed(range(len(U_str))):
          if U_str[i] == '.':
              return i
      return -1
  \<close>
  The loop counter runs from \<open>len - 1\<close> down to \<open>0\<close>; the second argument of the loop
  function is the number of indices still to visit.
\<close>

fun getLastDot_loop :: "string \<Rightarrow> nat \<Rightarrow> int" where
  "getLastDot_loop U_str 0 = - 1"
| "getLastDot_loop U_str (Suc i) =
     (if U_str ! i = CHR ''.'' then int i else getLastDot_loop U_str i)"

definition getLastDot :: "string \<Rightarrow> int" where
  "getLastDot U_str = getLastDot_loop U_str (length U_str)"

text \<open>
  \<^verbatim>\<open>
      temp_number = 0
      temp_suffix = ''
      while Path(ret_file_name + temp_suffix + temp_type).is_file():
          temp_number += 1
          temp_suffix = '_' + repr(temp_number)
      ret_file_name += temp_suffix + temp_type
      return ret_file_name
  \<close>
  The file system is read through the predicate \<open>is_file\<close> on path strings. The loop
  has no bound of its own, so it is a partial function: \<open>None\<close> is the run that never
  leaves the loop.
\<close>

partial_function (option) probe_loop ::
  "(string \<Rightarrow> bool) \<Rightarrow> string \<Rightarrow> string \<Rightarrow> nat \<Rightarrow> string \<Rightarrow> string option" where
  "probe_loop is_file ret_file_name temp_type temp_number temp_suffix =
     (if is_file (ret_file_name @ temp_suffix @ temp_type)
      then probe_loop is_file ret_file_name temp_type (temp_number + 1)
             (''_'' @ repr_nat (temp_number + 1))
      else Some (ret_file_name @ temp_suffix @ temp_type))"

declare probe_loop.simps [code]

text \<open>
  \<^verbatim>\<open>
  def createTempFileName(temp_file_name):
      i_dot = getLastDot(temp_file_name)
      if i_dot == -1:
          temp_type = ''
      else:
          l = len(temp_file_name)
          temp_type = temp_file_name[(i_dot - l):]
          ret_file_name = temp_file_name[:i_dot]
      ...
  \<close>
  The local variable \<open>ret_file_name\<close> is assigned in the second branch only; it is an
  \<open>option\<close> here, \<open>None\<close> while unbound, and reading it unbound (which the loop condition
  does first) raises \<open>UnboundLocalError\<close>.
\<close>

definition createTempFileName ::
  "(string \<Rightarrow> bool) \<Rightarrow> string \<Rightarrow> (py_error + string) option" where
  "createTempFileName is_file temp_file_name =
     (let i_dot = getLastDot temp_file_name;
          (temp_type, ret_file_name) =
            (if i_dot = - 1 then ('''', None)
             else let l = int (length temp_file_name)
                  in (slice_from temp_file_name (i_dot - l),
                      Some (slice_to temp_file_name i_dot)))
      in case ret_file_name of
           None \<Rightarrow> Some (Inl UnboundLocalError)
         | Some r \<Rightarrow> map_option Inr (probe_loop is_file r temp_type 0 ''''))"

text \<open>The candidate paths the loop probes, by the value of \<open>temp_number\<close>.\<close>

definition temp_suffix_of :: "nat \<Rightarrow> string" where
  "temp_suffix_of n = (if n = 0 then '''' else ''_'' @ repr_nat n)"

definition candidate :: "string \<Rightarrow> string \<Rightarrow> nat \<Rightarrow> string" where
  "candidate stem ext n = stem @ temp_suffix_of n @ ext"

text \<open>The split the second branch of \<open>createTempFileName\<close> makes of a path with a dot: the
  stem before the last dot, and the extension from that dot on.\<close>

definition stem_of :: "string \<Rightarrow> string" where
  "stem_of p = take (nat (getLastDot p)) p"

definition ext_of :: "string \<Rightarrow> string" where
  "ext_of p = drop (nat (getLastDot p)) p"


section \<open>The argument serializer\<close>

text \<open>
  The values of the arguments dictionary, by the branch of \<open>build_args\<close> that takes them:
  a \<open>bool\<close>, a \<open>str\<close>, an \<open>int\<close> (whose \<open>repr\<close> is \<open>repr_int\<close>), and any other object,
  which is given by the text \<open>repr\<close> returns for it. The dictionary is the list of its
  items in insertion order.
\<close>

datatype py_value = PyBool bool | PyStr string | PyInt int | PyOther string

text \<open>
  \<^verbatim>\<open>
  def build_args(argsDict):
      lstArgs = ''
      for name, key in argsDict.items():
          if isinstance(key, bool):
              if key:
                  lstArgs += ' --' + name
          elif isinstance(key, str):
              if key != '':
                  lstArgs += ' --' + name + '=' + key
          else:
              lstArgs += ' --' + name + '=' + repr(key)
      return lstArgs
  \<close>
  One equation per branch of the loop body, which maps the old \<open>lstArgs\<close> to the new.
\<close>

fun build_args_body :: "string \<Rightarrow> string \<times> py_value \<Rightarrow> string" where
  "build_args_body lstArgs (name, PyBool key) =
     (if key then lstArgs @ '' --'' @ name else lstArgs)"
| "build_args_body lstArgs (name, PyStr key) =
     (if key \<noteq> '''' then lstArgs @ '' --'' @ name @ ''='' @ key else lstArgs)"
| "build_args_body lstArgs (name, PyInt key) = lstArgs @ '' --'' @ name @ ''='' @ repr_int key"
| "build_args_body lstArgs (name, PyOther r) = lstArgs @ '' --'' @ name @ ''='' @ r"

definition build_args :: "(string \<times> py_value) list \<Rightarrow> string" where
  "build_args argsDict = foldl build_args_body '''' argsDict"

text \<open>The fragment of one entry as section 4.2 of the specification words it, to compare
  with the loop above.\<close>

fun spec_fragment :: "string \<times> py_value \<Rightarrow> string" where
  "spec_fragment (name, PyBool True) = '' --'' @ name"
| "spec_fragment (name, PyBool False) = ''''"
| "spec_fragment (name, PyStr v) = (if v = '''' then '''' else '' --'' @ name @ ''='' @ v)"
| "spec_fragment (name, PyInt i) = '' --'' @ name @ ''='' @ repr_int i"
| "spec_fragment (name, PyOther printable) = '' --'' @ name @ ''='' @ printable"


section \<open>The world outside the program\<close>

text \<open>
  The file system holds regular files, path to content, and says for which paths
  \<open>open(path, 'w')\<close> succeeds; paths are compared as strings. A child process is given by
  what it writes to its standard output and standard error before it exits; \<open>spawn\<close> is
  \<open>None\<close> for an argument vector that cannot be started. The two streams of the program
  itself are the texts written to them so far. What a child does to the file system is
  not part of the world.
\<close>

record child_run =
  child_stdout :: string
  child_stderr :: string

record world =
  files :: "string \<rightharpoonup> string"
  can_open :: "string \<Rightarrow> bool"
  spawn :: "string list \<Rightarrow> child_run option"
  sys_stdout :: string
  sys_stderr :: string

definition is_file :: "world \<Rightarrow> string \<Rightarrow> bool" where
  "is_file w path = (files w path \<noteq> None)"

text \<open>A file object opened for writing: its path and the text written so far. Opening
  truncates the file, closing stores the text.\<close>

definition file_open :: "world \<Rightarrow> string \<Rightarrow> py_error + world \<times> string \<times> string" where
  "file_open w path =
     (if can_open w path then Inr (w\<lparr>files := (files w)(path \<mapsto> '''')\<rparr>, (path, ''''))
      else Inl OSError)"

definition file_write :: "string \<times> string \<Rightarrow> string \<Rightarrow> string \<times> string" where
  "file_write f s = (fst f, snd f @ s)"

definition file_close :: "world \<Rightarrow> string \<times> string \<Rightarrow> world" where
  "file_close w f = w\<lparr>files := (files w)(fst f \<mapsto> snd f)\<rparr>"

text \<open>\<open>print(text)\<close> and \<open>print(text, file = sys.stderr)\<close> write the text and a newline.\<close>

definition print_stdout :: "world \<Rightarrow> string \<Rightarrow> world" where
  "print_stdout w s = w\<lparr>sys_stdout := sys_stdout w @ s @ ''\<newline>''\<rparr>"

definition print_stderr :: "world \<Rightarrow> string \<Rightarrow> world" where
  "print_stderr w s = w\<lparr>sys_stderr := sys_stderr w @ s @ ''\<newline>''\<rparr>"

text \<open>
  \<open>subprocess.Popen(args, stdout = ...)\<close>: each stream of the child is either inherited
  from the program (the default) or connected to a pipe (\<open>subprocess.PIPE\<close>). The source
  never passes \<open>stderr\<close>, so \<open>Popen\<close> takes the \<open>stdout\<close> argument only and leaves the
  standard error inherited. \<open>communicate\<close> waits for the child and returns, for each
  stream, the data read from its pipe, or \<open>None\<close> when the stream has no pipe; what the
  child writes to an inherited stream arrives on the program's own stream.
\<close>

datatype stream_target = INHERIT | PIPE

record process =
  proc_run :: child_run
  proc_stdout :: stream_target
  proc_stderr :: stream_target

definition Popen :: "world \<Rightarrow> string list \<Rightarrow> stream_target \<Rightarrow> py_error + process" where
  "Popen w args stdout_arg =
     (case spawn w args of
        None \<Rightarrow> Inl OSError
      | Some r \<Rightarrow> Inr \<lparr>proc_run = r, proc_stdout = stdout_arg, proc_stderr = INHERIT\<rparr>)"

definition communicate :: "world \<Rightarrow> process \<Rightarrow> (string option \<times> string option) \<times> world" where
  "communicate w proc =
     (let out = child_stdout (proc_run proc); err = child_stderr (proc_run proc)
      in ((if proc_stdout proc = PIPE then Some out else None,
           if proc_stderr proc = PIPE then Some err else None),
          w\<lparr>sys_stdout := sys_stdout w @ (if proc_stdout proc = PIPE then '''' else out),
            sys_stderr := sys_stderr w @ (if proc_stderr proc = PIPE then '''' else err)\<rparr>))"

section \<open>Text built-ins of the launcher\<close>

text \<open>
  \<open>str(data, 'utf-8')\<close> decodes bytes; since a \<open>str\<close> is held as its UTF-8 encoding, decoding
  returns the bytes unchanged when they are well-formed UTF-8 and raises \<open>UnicodeDecodeError\<close>
  otherwise. \<open>utf8_seq_len\<close> is the length of the well-formed sequence at the head of a byte
  list (byte values as numbers), \<open>0\<close> when there is none.
\<close>

definition continuation :: "nat \<Rightarrow> bool" where
  "continuation b = (0x80 \<le> b \<and> b \<le> 0xBF)"

definition second_of_three :: "nat \<Rightarrow> nat \<Rightarrow> bool" where
  "second_of_three a b =
     (if a = 0xE0 then 0xA0 \<le> b \<and> b \<le> 0xBF
      else if a = 0xED then 0x80 \<le> b \<and> b \<le> 0x9F
      else continuation b)"

definition second_of_four :: "nat \<Rightarrow> nat \<Rightarrow> bool" where
  "second_of_four a b =
     (if a = 0xF0 then 0x90 \<le> b \<and> b \<le> 0xBF
      else if a = 0xF4 then 0x80 \<le> b \<and> b \<le> 0x8F
      else continuation b)"

fun utf8_seq_len :: "nat list \<Rightarrow> nat" where
  "utf8_seq_len [] = 0"
| "utf8_seq_len (a # rest) =
     (if a < 0x80 then 1
      else if 0xC2 \<le> a \<and> a \<le> 0xDF then
        (case rest of b # _ \<Rightarrow> if continuation b then 2 else 0 | _ \<Rightarrow> 0)
      else if 0xE0 \<le> a \<and> a \<le> 0xEF then
        (case rest of
           b # c # _ \<Rightarrow> if second_of_three a b \<and> continuation c then 3 else 0
         | _ \<Rightarrow> 0)
      else if 0xF0 \<le> a \<and> a \<le> 0xF4 then
        (case rest of
           b # c # d # _ \<Rightarrow>
             if second_of_four a b \<and> continuation c \<and> continuation d then 4 else 0
         | _ \<Rightarrow> 0)
      else 0)"

function utf8_valid :: "nat list \<Rightarrow> bool" where
  "utf8_valid bs =
     (if bs = [] then True
      else if utf8_seq_len bs = 0 then False
      else utf8_valid (drop (utf8_seq_len bs) bs))"
  by pat_completeness auto
termination
  by (relation "measure length") auto

definition str_decode :: "string \<Rightarrow> py_error + string" where
  "str_decode data =
     (if utf8_valid (map of_char data) then Inr data else Inl UnicodeDecodeError)"

text \<open>
  The characters \<open>str.strip()\<close> and \<open>str.split()\<close> take for whitespace, each as its UTF-8
  encoding: U+0009 to U+000D, U+001C to U+0020, U+0085, U+00A0, U+1680, U+2000 to U+200A,
  U+2028, U+2029, U+202F, U+205F and U+3000.
\<close>

definition whitespace :: "string list" where
  "whitespace =
     [[CHR 0x09], [CHR 0x0A], [CHR 0x0B], [CHR 0x0C], [CHR 0x0D],
      [CHR 0x1C], [CHR 0x1D], [CHR 0x1E], [CHR 0x1F], [CHR 0x20],
      [CHR 0xC2, CHR 0x85], [CHR 0xC2, CHR 0xA0], [CHR 0xE1, CHR 0x9A, CHR 0x80],
      [CHR 0xE2, CHR 0x80, CHR 0x80], [CHR 0xE2, CHR 0x80, CHR 0x81],
      [CHR 0xE2, CHR 0x80, CHR 0x82], [CHR 0xE2, CHR 0x80, CHR 0x83],
      [CHR 0xE2, CHR 0x80, CHR 0x84], [CHR 0xE2, CHR 0x80, CHR 0x85],
      [CHR 0xE2, CHR 0x80, CHR 0x86], [CHR 0xE2, CHR 0x80, CHR 0x87],
      [CHR 0xE2, CHR 0x80, CHR 0x88], [CHR 0xE2, CHR 0x80, CHR 0x89],
      [CHR 0xE2, CHR 0x80, CHR 0x8A], [CHR 0xE2, CHR 0x80, CHR 0xA8],
      [CHR 0xE2, CHR 0x80, CHR 0xA9], [CHR 0xE2, CHR 0x80, CHR 0xAF],
      [CHR 0xE2, CHR 0x81, CHR 0x9F], [CHR 0xE3, CHR 0x80, CHR 0x80]]"

text \<open>The length of the character of \<open>ws\<close> that \<open>s\<close> starts with, \<open>0\<close> when it starts with
  none; every element of \<open>ws\<close> is read as one character.\<close>

definition leading :: "string list \<Rightarrow> string \<Rightarrow> nat" where
  "leading ws s = (case find (\<lambda>w. w \<noteq> [] \<and> prefix w s) ws of None \<Rightarrow> 0 | Some w \<Rightarrow> length w)"

function lstrip_chars :: "string list \<Rightarrow> string \<Rightarrow> string" where
  "lstrip_chars ws s =
     (if leading ws s = 0 then s else lstrip_chars ws (drop (leading ws s) s))"
  by pat_completeness auto
termination
proof (relation "measure (\<lambda>(ws, s). length s)")
  fix ws :: "string list" and s :: string
  assume pos: "leading ws s \<noteq> 0"
  then obtain w where "find (\<lambda>w. w \<noteq> [] \<and> prefix w s) ws = Some w"
    by (auto simp: leading_def split: option.splits)
  then have "w \<noteq> [] \<and> prefix w s"
    by (auto simp: find_Some_iff)
  then have "s \<noteq> []" by auto
  with pos show "((ws, drop (leading ws s) s), (ws, s)) \<in> measure (\<lambda>(ws, s). length s)"
    by simp
qed simp

definition py_strip :: "string \<Rightarrow> string" where
  "py_strip s = rev (lstrip_chars (map rev whitespace) (rev (lstrip_chars whitespace s)))"

text \<open>\<open>str.split()\<close> with no argument: the maximal runs of characters that are not
  whitespace. \<open>word\<close> is the run read so far.\<close>

function split_loop :: "string \<Rightarrow> string \<Rightarrow> string list" where
  "split_loop word s =
     (if s = [] then (if word = [] then [] else [word])
      else if leading whitespace s = 0 then split_loop (word @ [hd s]) (tl s)
      else (if word = [] then [] else [word]) @ split_loop [] (drop (leading whitespace s) s))"
  by pat_completeness auto
termination
  by (relation "measure (\<lambda>(word, s). length s)") auto

definition py_split :: "string \<Rightarrow> string list" where
  "py_split s = split_loop [] s"

declare repr_nat.simps [simp del]
declare utf8_valid.simps [simp del]
declare lstrip_chars.simps [simp del]
declare split_loop.simps [simp del]


section \<open>The script builders\<close>

text \<open>
  The run options dictionary, with the keys the source reads. A builder returns what the
  Python function returns or the exception it raises, together with the run options and
  the world as the call leaves them; \<open>None\<close> is the call that never returns. The record
  has every key, each of the type the source uses it at.
\<close>

record run_opt =
  interactive :: bool
  env_name :: string
  command :: string
  script :: string
  temp_file :: string

type_synonym 'a outcome = "((py_error + 'a) \<times> run_opt \<times> world) option"

text \<open>
  \<^verbatim>\<open>
  def build_sbatch(runOpt, sbatchOpt, argsDict):
      runOpt['temp_file'] = createTempFileName(runOpt['temp_file'])
      f_sbatch = open(runOpt['temp_file'], 'w')
      f_sbatch.write('#!/bin/bash\n\n')
      for opt in sbatchOpt:
          f_sbatch.write('#SBATCH ' + opt + '\n')
      f_sbatch.write('\n')
      f_sbatch.write('source activate ' + runOpt['env_name'] + '\n')
      str_args = build_args(argsDict)
      if 'ipython' in runOpt['command']:
          str_args = ' --' + str_args
      f_sbatch.write(runOpt['command'] + ' ' + runOpt['script'] + str_args + '\n')
      f_sbatch.write('source deactivate ' + runOpt['env_name'] + '\n')
      f_sbatch.close()
  \<close>
\<close>

definition build_sbatch ::
  "run_opt \<Rightarrow> string list \<Rightarrow> (string \<times> py_value) list \<Rightarrow> world \<Rightarrow> unit outcome" where
  "build_sbatch runOpt sbatchOpt argsDict w =
     (case createTempFileName (is_file w) (temp_file runOpt) of
        None \<Rightarrow> None
      | Some (Inl e) \<Rightarrow> Some (Inl e, runOpt, w)
      | Some (Inr name) \<Rightarrow>
          (let runOpt = runOpt\<lparr>temp_file := name\<rparr> in
           case file_open w (temp_file runOpt) of
             Inl e \<Rightarrow> Some (Inl e, runOpt, w)
           | Inr (w, f_sbatch) \<Rightarrow>
               (let f_sbatch = file_write f_sbatch ''#!/bin/bash\<newline>\<newline>'';
                    f_sbatch = foldl (\<lambda>f opt. file_write f (''#SBATCH '' @ opt @ ''\<newline>''))
                                 f_sbatch sbatchOpt;
                    f_sbatch = file_write f_sbatch ''\<newline>'';
                    f_sbatch = file_write f_sbatch
                                 (''source activate '' @ env_name runOpt @ ''\<newline>'');
                    str_args = build_args argsDict;
                    str_args = (if str_contains ''ipython'' (command runOpt)
                                then '' --'' @ str_args else str_args);
                    f_sbatch = file_write f_sbatch
                                 (command runOpt @ '' '' @ script runOpt @ str_args @ ''\<newline>'');
                    f_sbatch = file_write f_sbatch
                                 (''source deactivate '' @ env_name runOpt @ ''\<newline>'')
                in Some (Inr (), runOpt, file_close w f_sbatch))))"

text \<open>
  \<^verbatim>\<open>
  def build_srun(runOpt, sbatchOpt, argsDict):
      command_srun = 'srun'
      for opt in sbatchOpt:
          command_srun += ' ' + opt
      command_srun += ' --pty bash'
      runOpt['temp_file'] = createTempFileName(runOpt['temp_file'])
      f_sbatch = open(runOpt['temp_file'], 'w')
      f_sbatch.write('#!/bin/bash\n\n')
      f_sbatch.write('source activate ' + runOpt['env_name'] + '\n')
      str_args = build_args(argsDict)
      if 'ipython' in runOpt['command']:
          str_args = ' --' + str_args
      f_sbatch.write(runOpt['command'] + ' ' + runOpt['script'] + str_args + '\n')
      f_sbatch.write('source deactivate ' + runOpt['env_name'] + '\n')
      f_sbatch.close()
      return command_srun
  \<close>
\<close>

definition build_srun ::
  "run_opt \<Rightarrow> string list \<Rightarrow> (string \<times> py_value) list \<Rightarrow> world \<Rightarrow> string outcome" where
  "build_srun runOpt sbatchOpt argsDict w =
     (let command_srun = ''srun'';
          command_srun = foldl (\<lambda>command_srun opt. command_srun @ '' '' @ opt)
                           command_srun sbatchOpt;
          command_srun = command_srun @ '' --pty bash''
      in case createTempFileName (is_file w) (temp_file runOpt) of
           None \<Rightarrow> None
         | Some (Inl e) \<Rightarrow> Some (Inl e, runOpt, w)
         | Some (Inr name) \<Rightarrow>
             (let runOpt = runOpt\<lparr>temp_file := name\<rparr> in
              case file_open w (temp_file runOpt) of
                Inl e \<Rightarrow> Some (Inl e, runOpt, w)
              | Inr (w, f_sbatch) \<Rightarrow>
                  (let f_sbatch = file_write f_sbatch ''#!/bin/bash\<newline>\<newline>'';
                       f_sbatch = file_write f_sbatch
                                    (''source activate '' @ env_name runOpt @ ''\<newline>'');
                       str_args = build_args argsDict;
                       str_args = (if str_contains ''ipython'' (command runOpt)
                                   then '' --'' @ str_args else str_args);
                       f_sbatch = file_write f_sbatch
                                    (command runOpt @ '' '' @ script runOpt @ str_args @ ''\<newline>'');
                       f_sbatch = file_write f_sbatch
                                    (''source deactivate '' @ env_name runOpt @ ''\<newline>'')
                   in Some (Inr command_srun, runOpt, file_close w f_sbatch))))"


section \<open>The launcher\<close>

text \<open>
  \<^verbatim>\<open>
  def launch_exp(runOpt, sbatchOpt, argsDict):
      if runOpt['interactive']:
          command_srun = build_srun(runOpt, sbatchOpt, argsDict)
          print('Interactive job to launch: ' + runOpt['temp_file'] + '\n')
          proc = subprocess.Popen(command_srun.split(), stdout = subprocess.PIPE)
          output, error = proc.communicate()
      else:
          build_sbatch(runOpt, sbatchOpt, argsDict)
          bashCMD = 'sbatch ' + runOpt['temp_file']
          proc = subprocess.Popen(bashCMD.split(), stdout = subprocess.PIPE)
          output, error = proc.communicate()
          if not output is None:
              print(str(output, 'utf-8').strip())
          if not error is None:
              print(str(error, 'utf-8').strip(), file = sys.stderr)
  \<close>
  \<open>relay\<close> is one of the two closing statements of the batch branch: the guard on \<open>None\<close>,
  the decoding, which may raise, and the print.
\<close>

definition relay ::
  "(world \<Rightarrow> string \<Rightarrow> world) \<Rightarrow> world \<Rightarrow> string option \<Rightarrow> py_error + world" where
  "relay print w captured =
     (case captured of
        None \<Rightarrow> Inr w
      | Some data \<Rightarrow>
          (case str_decode data of
             Inl e \<Rightarrow> Inl e
           | Inr s \<Rightarrow> Inr (print w (py_strip s))))"

definition launch_exp ::
  "run_opt \<Rightarrow> string list \<Rightarrow> (string \<times> py_value) list \<Rightarrow> world \<Rightarrow> unit outcome" where
  "launch_exp runOpt sbatchOpt argsDict w =
     (if interactive runOpt then
        (case build_srun runOpt sbatchOpt argsDict w of
           None \<Rightarrow> None
         | Some (Inl e, runOpt, w) \<Rightarrow> Some (Inl e, runOpt, w)
         | Some (Inr command_srun, runOpt, w) \<Rightarrow>
             (let w = print_stdout w
                        (''Interactive job to launch: '' @ temp_file runOpt @ ''\<newline>'')
              in case Popen w (py_split command_srun) PIPE of
                   Inl e \<Rightarrow> Some (Inl e, runOpt, w)
                 | Inr proc \<Rightarrow>
                     (let ((output, error), w) = communicate w proc
                      in Some (Inr (), runOpt, w))))
      else
        (case build_sbatch runOpt sbatchOpt argsDict w of
           None \<Rightarrow> None
         | Some (Inl e, runOpt, w) \<Rightarrow> Some (Inl e, runOpt, w)
         | Some (Inr _, runOpt, w) \<Rightarrow>
             (let bashCMD = ''sbatch '' @ temp_file runOpt
              in case Popen w (py_split bashCMD) PIPE of
                   Inl e \<Rightarrow> Some (Inl e, runOpt, w)
                 | Inr proc \<Rightarrow>
                     (let ((output, error), w) = communicate w proc
                      in case relay print_stdout w output of
                           Inl e \<Rightarrow> Some (Inl e, runOpt, w)
                         | Inr w \<Rightarrow>
                             (case relay print_stderr w error of
                                Inl e \<Rightarrow> Some (Inl e, runOpt, w)
                              | Inr w \<Rightarrow> Some (Inr (), runOpt, w))))))"

section \<open>Concrete worlds\<close>

text \<open>A file system holding exactly the listed paths, a child process that answers one
  argument vector, a world built from the two with empty streams, and the standard
  output of the world a call leaves behind.\<close>

definition holds_files :: "string list \<Rightarrow> string \<Rightarrow> bool" where
  "holds_files existing path = (path \<in> set existing)"

definition child_on :: "string list \<Rightarrow> string \<Rightarrow> string \<Rightarrow> string list \<Rightarrow> child_run option" where
  "child_on argv out err args =
     (if args = argv then Some \<lparr>child_stdout = out, child_stderr = err\<rparr> else None)"

definition world_of :: "string list \<Rightarrow> (string list \<Rightarrow> child_run option) \<Rightarrow> world" where
  "world_of existing children =
     \<lparr>files = map_of (map (\<lambda>path. (path, '''')) existing), can_open = (\<lambda>path. True),
      spawn = children, sys_stdout = '''', sys_stderr = ''''\<rparr>"

definition stdout_after :: "'a outcome \<Rightarrow> string option" where
  "stdout_after r = map_option (\<lambda>(res, runOpt, w). sys_stdout w) r"



section \<open>Properties of the unique-name resolver\<close>

lemma getLastDot_loop_range:
  "getLastDot_loop s n = - 1 \<or> (0 \<le> getLastDot_loop s n \<and> getLastDot_loop s n < int n)"
  by (induction n) auto

lemma getLastDot_loop_none: "getLastDot_loop s n = - 1 \<longleftrightarrow> (\<forall>i<n. s ! i \<noteq> CHR ''.'')"
  by (induction n) (auto simp: less_Suc_eq)

lemma getLastDot_none: "getLastDot s = - 1 \<longleftrightarrow> CHR ''.'' \<notin> set s"
  by (auto simp: getLastDot_def getLastDot_loop_none in_set_conv_nth)

lemma getLastDot_range:
  "getLastDot s \<noteq> - 1 \<Longrightarrow> 0 \<le> getLastDot s \<and> getLastDot s < int (length s)"
  using getLastDot_loop_range [of s "length s"] by (simp add: getLastDot_def)

lemma getLastDot_trailing: "getLastDot (stem @ ''.'') = int (length stem)"
  by (simp add: getLastDot_def)

lemma slice_from_dot:
  "0 \<le> i \<Longrightarrow> i < int (length s) \<Longrightarrow> slice_from s (i - int (length s)) = drop (nat i) s"
  by (simp add: slice_from_def slice_bound_def)

lemma slice_to_dot:
  "0 \<le> i \<Longrightarrow> i < int (length s) \<Longrightarrow> slice_to s i = take (nat i) s"
  by (simp add: slice_to_def slice_bound_def)

text \<open>A path without a dot never reaches the loop: the read of the unbound
  \<open>ret_file_name\<close> raises, whatever the file system holds.\<close>

lemma createTempFileName_dotless:
  "CHR ''.'' \<notin> set p \<Longrightarrow> createTempFileName exists p = Some (Inl UnboundLocalError)"
  by (simp add: createTempFileName_def getLastDot_none)

text \<open>A path with a dot is split at its last dot, the dot going to the extension.\<close>

lemma createTempFileName_dotted:
  assumes "CHR ''.'' \<in> set p"
  shows "createTempFileName exists p =
     map_option Inr (probe_loop exists (stem_of p) (ext_of p) 0 '''')"
proof -
  have n: "getLastDot p \<noteq> - 1" using assms by (simp add: getLastDot_none)
  from getLastDot_range [OF n] show ?thesis
    using n by (simp add: createTempFileName_def slice_from_dot slice_to_dot Let_def
        stem_of_def ext_of_def)
qed

lemma stem_ext: "stem_of p @ ext_of p = p"
  by (simp add: stem_of_def ext_of_def)

lemma stem_ext_trailing: "stem_of (stem @ ''.'') = stem \<and> ext_of (stem @ ''.'') = ''.''"
  by (simp add: stem_of_def ext_of_def getLastDot_trailing)

text \<open>The loop returns the first candidate that is not a file, counting from the
  candidate it starts at.\<close>

lemma probe_loop_first_free:
  assumes "\<not> exists (candidate stem ext m)" "n \<le> m"
    and "\<And>k. n \<le> k \<Longrightarrow> k < m \<Longrightarrow> exists (candidate stem ext k)"
  shows "probe_loop exists stem ext n (temp_suffix_of n) = Some (candidate stem ext m)"
  using assms
proof (induction "m - n" arbitrary: n)
  case 0
  then have "n = m" by simp
  with 0 show ?case by (subst probe_loop.simps) (simp add: candidate_def)
next
  case (Suc d)
  then have lt: "n < m" by simp
  then have occ: "exists (candidate stem ext n)" using Suc.prems by simp
  have "probe_loop exists stem ext (Suc n) (temp_suffix_of (Suc n)) = Some (candidate stem ext m)"
    using Suc lt by (intro Suc.hyps(1)) auto
  then show ?case using occ
    by (subst probe_loop.simps) (simp add: candidate_def temp_suffix_of_def)
qed

text \<open>Whatever the loop returns is such a first free candidate.\<close>

lemma probe_loop_returns:
  assumes "probe_loop exists stem ext n sfx = Some r"
  shows "sfx = temp_suffix_of n \<longrightarrow>
     (\<exists>m\<ge>n. r = candidate stem ext m \<and> \<not> exists r \<and>
        (\<forall>k. n \<le> k \<and> k < m \<longrightarrow> exists (candidate stem ext k)))"
proof (rule probe_loop.raw_induct [where P = "\<lambda>exists stem ext n sfx r.
     sfx = temp_suffix_of n \<longrightarrow>
     (\<exists>m\<ge>n. r = candidate stem ext m \<and> \<not> exists r \<and>
        (\<forall>k. n \<le> k \<and> k < m \<longrightarrow> exists (candidate stem ext k)))", OF _ assms])
  fix loop exists stem ext n sfx r
  assume IH: "\<And>exists stem ext n sfx r. loop exists stem ext n sfx = Some r \<Longrightarrow>
      sfx = temp_suffix_of n \<longrightarrow>
     (\<exists>m\<ge>n. r = candidate stem ext m \<and> \<not> exists r \<and>
        (\<forall>k. n \<le> k \<and> k < m \<longrightarrow> exists (candidate stem ext k)))"
    and step: "(if exists (stem @ sfx @ ext)
        then loop exists stem ext (n + 1) (''_'' @ repr_nat (n + 1))
        else Some (stem @ sfx @ ext)) = Some r"
  show "sfx = temp_suffix_of n \<longrightarrow>
     (\<exists>m\<ge>n. r = candidate stem ext m \<and> \<not> exists r \<and>
        (\<forall>k. n \<le> k \<and> k < m \<longrightarrow> exists (candidate stem ext k)))"
  proof
    assume sfx: "sfx = temp_suffix_of n"
    show "\<exists>m\<ge>n. r = candidate stem ext m \<and> \<not> exists r \<and>
        (\<forall>k. n \<le> k \<and> k < m \<longrightarrow> exists (candidate stem ext k))"
    proof (cases "exists (stem @ sfx @ ext)")
      case True
      with step have "loop exists stem ext (n + 1) (''_'' @ repr_nat (n + 1)) = Some r"
        by simp
      from IH [OF this] obtain m where m: "m \<ge> n + 1" "r = candidate stem ext m"
        "\<not> exists r" "\<forall>k. n + 1 \<le> k \<and> k < m \<longrightarrow> exists (candidate stem ext k)"
        by (auto simp: temp_suffix_of_def)
      have "\<forall>k. n \<le> k \<and> k < m \<longrightarrow> exists (candidate stem ext k)"
      proof (intro allI impI)
        fix k assume "n \<le> k \<and> k < m"
        then consider "k = n" | "n + 1 \<le> k \<and> k < m" by linarith
        then show "exists (candidate stem ext k)"
          using True sfx m(4) by cases (auto simp: candidate_def)
      qed
      with m show ?thesis by (intro exI [of _ m]) auto
    next
      case False
      with step have "r = stem @ sfx @ ext" by simp
      with False sfx show ?thesis by (intro exI [of _ n]) (auto simp: candidate_def)
    qed
  qed
qed

text \<open>For a path with a dot the three properties of section 8 hold: a free path comes
  back unchanged, a taken one gets the first unused number between stem and extension,
  and no returned path is a file.\<close>

lemma createTempFileName_free_dotted:
  assumes "CHR ''.'' \<in> set p" "\<not> exists p"
  shows "createTempFileName exists p = Some (Inr p)"
proof -
  have "\<not> exists (candidate (stem_of p) (ext_of p) 0)"
    using assms(2) by (simp add: candidate_def temp_suffix_of_def stem_ext)
  then have "probe_loop exists (stem_of p) (ext_of p) 0 (temp_suffix_of 0)
      = Some (candidate (stem_of p) (ext_of p) 0)"
    by (rule probe_loop_first_free) simp_all
  then show ?thesis
    using assms(1) by (simp add: createTempFileName_dotted candidate_def temp_suffix_of_def stem_ext)
qed

lemma createTempFileName_first_unused_dotted:
  assumes "CHR ''.'' \<in> set p"
    and "\<not> exists (candidate (stem_of p) (ext_of p) m)"
    and "\<And>k. k < m \<Longrightarrow> exists (candidate (stem_of p) (ext_of p) k)"
  shows "createTempFileName exists p = Some (Inr (candidate (stem_of p) (ext_of p) m))"
proof -
  have "probe_loop exists (stem_of p) (ext_of p) 0 (temp_suffix_of 0)
      = Some (candidate (stem_of p) (ext_of p) m)"
    using assms(2,3) by (intro probe_loop_first_free) simp_all
  then show ?thesis
    using assms(1) by (simp add: createTempFileName_dotted temp_suffix_of_def)
qed

lemma createTempFileName_returns_free:
  assumes "createTempFileName exists p = Some (Inr r)"
  shows "\<not> exists r"
proof (cases "CHR ''.'' \<in> set p")
  case True
  with assms obtain r' where "probe_loop exists (stem_of p) (ext_of p) 0 '''' = Some r'" "r = r'"
    by (auto simp: createTempFileName_dotted)
  with probe_loop_returns [of exists "stem_of p" "ext_of p" 0 "''''" r] show ?thesis
    by (auto simp: temp_suffix_of_def)
next
  case False
  with assms show ?thesis by (simp add: createTempFileName_dotless)
qed

text \<open>On a file system with finitely many files the loop ends: the candidates are
  pairwise different, so one of them is free.\<close>

lemma repr_nat_digit: "n < 10 \<Longrightarrow> repr_nat n = [''0123456789'' ! n]"
  by (subst repr_nat.simps) simp

lemma repr_nat_more:
  "\<not> n < 10 \<Longrightarrow> repr_nat n = repr_nat (n div 10) @ [''0123456789'' ! (n mod 10)]"
  by (subst repr_nat.simps) simp

lemma repr_nat_nonempty: "repr_nat n \<noteq> []"
  by (subst repr_nat.simps) simp

lemma digit_inj:
  assumes "''0123456789'' ! a = ''0123456789'' ! b" "a < 10" "b < 10"
  shows "a = b"
proof -
  have "distinct ''0123456789''" by simp
  then show ?thesis using assms by (simp add: nth_eq_iff_index_eq)
qed

lemma repr_nat_inj: "repr_nat n = repr_nat m \<Longrightarrow> n = m"
proof (induction n arbitrary: m rule: repr_nat.induct)
  case (1 n)
  show ?case
  proof (cases "n < 10")
    case small: True
    show ?thesis
    proof (cases "m < 10")
      case True
      with small "1.prems" show ?thesis
        by (simp add: repr_nat_digit digit_inj)
    next
      case False
      with small "1.prems" repr_nat_nonempty [of "m div 10"] show ?thesis
        by (simp add: repr_nat_digit repr_nat_more)
    qed
  next
    case big: False
    show ?thesis
    proof (cases "m < 10")
      case True
      with big "1.prems" repr_nat_nonempty [of "n div 10"] show ?thesis
        by (simp add: repr_nat_digit repr_nat_more)
    next
      case False
      with big "1.prems" have eq: "repr_nat (n div 10) = repr_nat (m div 10)"
        and d: "''0123456789'' ! (n mod 10) = ''0123456789'' ! (m mod 10)"
        by (simp_all add: repr_nat_more)
      from "1.IH" [OF big eq] have q: "n div 10 = m div 10" .
      from d have r: "n mod 10 = m mod 10" by (rule digit_inj) simp_all
      from q r show ?thesis by (metis div_mult_mod_eq)
    qed
  qed
qed

lemma candidate_inj: "candidate stem ext n = candidate stem ext m \<Longrightarrow> n = m"
  by (auto simp: candidate_def temp_suffix_of_def dest: repr_nat_inj split: if_splits)

lemma free_candidate:
  assumes "finite {p. exists p}"
  shows "\<exists>m. \<not> exists (candidate stem ext m)"
proof (rule ccontr)
  assume "\<not> (\<exists>m. \<not> exists (candidate stem ext m))"
  then have "range (candidate stem ext) \<subseteq> {p. exists p}" by auto
  with assms have "finite (range (candidate stem ext))" by (rule rev_finite_subset)
  moreover have "inj (candidate stem ext)" by (auto intro: injI dest: candidate_inj)
  ultimately show False by (simp add: finite_image_iff)
qed

lemma createTempFileName_terminates:
  assumes "finite {p. exists p}" and "CHR ''.'' \<in> set p"
  shows "\<exists>r. createTempFileName exists p = Some (Inr r) \<and> \<not> exists r"
proof -
  let ?free = "\<lambda>m. \<not> exists (candidate (stem_of p) (ext_of p) m)"
  from free_candidate [OF assms(1)] have ex: "\<exists>m. ?free m" .
  define m where "m = (LEAST m. ?free m)"
  have free: "?free m" unfolding m_def using ex by (rule LeastI_ex)
  have taken: "\<And>k. k < m \<Longrightarrow> exists (candidate (stem_of p) (ext_of p) k)"
    unfolding m_def using not_less_Least by blast
  from createTempFileName_first_unused_dotted [where exists = exists and m = m, OF assms(2) free taken] free
  show ?thesis by simp
qed

text \<open>
  C2. The claim: for every input path, also one without a dot, the resolver returns a
  result without raising, the whole input being the stem. On the input \<open>script\<close>, which has
  no dot, and a file system without files, the code raises \<open>UnboundLocalError\<close>: the branch
  for \<open>i_dot == -1\<close> sets the extension and leaves \<open>ret_file_name\<close> unbound.
\<close>

theorem createTempFileName_no_dot_raises:
  "createTempFileName (holds_files []) ''script'' = Some (Inl UnboundLocalError)"
  by (simp add: createTempFileName_def getLastDot_def)

text \<open>
  C3. The claim: for every path with no file at it, the resolver returns the path
  unchanged. On the free path \<open>results/run1\<close>, which has no dot, the code raises instead
  of returning the path.
\<close>

theorem createTempFileName_free_path_no_dot:
  "createTempFileName (holds_files []) ''results/run1'' = Some (Inl UnboundLocalError)
   \<and> createTempFileName (holds_files []) ''results/run1'' \<noteq> Some (Inr ''results/run1'')"
  by (simp add: createTempFileName_def getLastDot_def)

text \<open>
  C4. The claim: for every path, a taken candidate gets the first unused number between
  stem and extension, and the returned path is no file. With the files \<open>job\<close> and \<open>job_1\<close>
  present, the path \<open>job\<close>, which has no dot, should resolve to \<open>job_2\<close>; the code raises.
\<close>

theorem createTempFileName_collision_no_dot:
  "createTempFileName (holds_files [''job'', ''job_1'']) ''job'' = Some (Inl UnboundLocalError)
   \<and> createTempFileName (holds_files [''job'', ''job_1'']) ''job'' \<noteq> Some (Inr ''job_2'')"
  by (simp add: createTempFileName_def getLastDot_def)

text \<open>
  C10, as the claim states it: with a trailing dot the extension is empty and the number
  goes after the dot. With the file \<open>run.\<close> present, the code resolves \<open>run.\<close> to
  \<open>run_1.\<close>, the number before the dot, and not to \<open>run._1\<close>.
\<close>

theorem trailing_dot_suffix_counterexample:
  "createTempFileName (holds_files [''run.'']) ''run.'' = Some (Inr ''run_1.'')
   \<and> createTempFileName (holds_files [''run.'']) ''run.'' \<noteq> Some (Inr ''run._1'')"
  by (simp add: createTempFileName_def getLastDot_def slice_from_def slice_to_def
      slice_bound_def probe_loop.simps holds_files_def repr_nat.simps)

text \<open>
  C10, amended. For every input path whose last character is a dot, the extension is
  that dot and the stem is everything before it, so the number \<open>_n\<close> of the first free
  candidate is inserted before the trailing dot.
\<close>

theorem trailing_dot_suffix_before_dot:
  assumes "\<not> exists (stem @ temp_suffix_of m @ ''.'')"
    and "\<forall>k<m. exists (stem @ temp_suffix_of k @ ''.'')"
  shows "createTempFileName exists (stem @ ''.'') = Some (Inr (stem @ temp_suffix_of m @ ''.''))"
proof -
  have "createTempFileName exists (stem @ ''.'')
      = Some (Inr (candidate (stem_of (stem @ ''.'')) (ext_of (stem @ ''.'')) m))"
    using assms by (intro createTempFileName_first_unused_dotted)
      (simp_all add: stem_ext_trailing candidate_def)
  then show ?thesis by (simp add: stem_ext_trailing candidate_def)
qed

theorem trailing_dot_suffix_before_dot_witness:
  "\<not> holds_files [''run.''] (''run'' @ temp_suffix_of 1 @ ''.'')
   \<and> holds_files [''run.''] (''run'' @ temp_suffix_of 0 @ ''.'')
   \<and> createTempFileName (holds_files [''run.'']) (''run'' @ ''.'') = Some (Inr ''run_1.'')"
proof -
  have free: "\<not> holds_files [''run.''] (''run'' @ temp_suffix_of 1 @ ''.'')"
    by (simp add: holds_files_def temp_suffix_of_def repr_nat.simps)
  have taken: "\<forall>k<1. holds_files [''run.''] (''run'' @ temp_suffix_of k @ ''.'')"
    by (simp add: holds_files_def temp_suffix_of_def)
  show ?thesis
    using free taken trailing_dot_suffix_before_dot [OF free taken]
    by (simp add: temp_suffix_of_def repr_nat.simps)
qed

section \<open>Properties of the argument serializer\<close>

lemma build_args_body_fragment: "build_args_body acc entry = acc @ spec_fragment entry"
proof (cases entry)
  case (Pair name key)
  then show ?thesis
  proof (cases key)
    case (PyBool b)
    with Pair show ?thesis by (cases b) simp_all
  qed simp_all
qed

lemma foldl_build_args_body:
  "foldl build_args_body acc argsDict = acc @ concat (map spec_fragment argsDict)"
  by (induction argsDict arbitrary: acc) (simp_all add: build_args_body_fragment)

text \<open>
  C6. \<open>build_args\<close> is the concatenation, in the order of the entries, of one fragment per
  entry, nothing reordered, merged or escaped: \<open> --name\<close> for a true boolean, nothing for
  a false one, \<open> --name=value\<close> for a non-empty string, nothing for an empty one, and
  \<open> --name=repr\<close> for any other value; the five examples of the specification follow.
\<close>

theorem build_args_fragments:
  "build_args argsDict = concat (map spec_fragment argsDict)
   \<and> build_args [(''verbose'', PyBool True)] = '' --verbose''
   \<and> build_args [(''verbose'', PyBool False)] = ''''
   \<and> build_args [(''name'', PyStr ''x'')] = '' --name=x''
   \<and> build_args [(''name'', PyStr '''')] = ''''
   \<and> build_args [(''count'', PyInt 5)] = '' --count=5''"
  by (simp add: build_args_def foldl_build_args_body repr_int_def repr_nat.simps)

section \<open>Properties of the script builders\<close>

lemma str_contains_iff: "str_contains needle hay \<longleftrightarrow> (\<exists>pre post. hay = pre @ needle @ post)"
proof (induction hay)
  case Nil
  then show ?case by auto
next
  case (Cons c cs)
  show ?case
  proof
    assume "str_contains needle (c # cs)"
    then consider "prefix needle (c # cs)" | "str_contains needle cs" by auto
    then show "\<exists>pre post. c # cs = pre @ needle @ post"
    proof cases
      case 1
      then obtain post where "c # cs = needle @ post" by (auto simp: prefix_def)
      then have "c # cs = [] @ needle @ post" by simp
      then show ?thesis by blast
    next
      case 2
      with Cons obtain pre post where "cs = pre @ needle @ post" by auto
      then have "c # cs = (c # pre) @ needle @ post" by simp
      then show ?thesis by blast
    qed
  next
    assume "\<exists>pre post. c # cs = pre @ needle @ post"
    then obtain pre post where eq: "c # cs = pre @ needle @ post" by auto
    show "str_contains needle (c # cs)"
    proof (cases pre)
      case Nil
      with eq have "prefix needle (c # cs)" by (simp add: prefix_def)
      then show ?thesis by simp
    next
      case (Cons a pre')
      with eq have "cs = pre' @ needle @ post" by simp
      with Cons.IH show ?thesis by auto
    qed
  qed
qed

lemma foldl_write:
  "foldl (\<lambda>f opt. (fst f, snd f @ line opt)) f sbatchOpt
     = (fst f, snd f @ concat (map line sbatchOpt))"
  by (induction sbatchOpt arbitrary: f) simp_all

lemma foldl_append:
  "foldl (\<lambda>command_srun opt. command_srun @ word opt) acc sbatchOpt
     = acc @ concat (map word sbatchOpt)"
  by (induction sbatchOpt arbitrary: acc) simp_all

lemma build_sbatch_file:
  assumes "createTempFileName (is_file w) (temp_file runOpt) = Some (Inr path)"
    and "can_open w path"
  shows "build_sbatch runOpt sbatchOpt argsDict w =
     Some (Inr (), runOpt\<lparr>temp_file := path\<rparr>,
       w\<lparr>files := (files w)(path \<mapsto>
          ''#!/bin/bash\<newline>\<newline>''
          @ concat (map (\<lambda>opt. ''#SBATCH '' @ opt @ ''\<newline>'') sbatchOpt) @ ''\<newline>''
          @ ''source activate '' @ env_name runOpt @ ''\<newline>''
          @ command runOpt @ '' '' @ script runOpt
          @ (if str_contains ''ipython'' (command runOpt) then '' --'' else '''')
          @ build_args argsDict @ ''\<newline>''
          @ ''source deactivate '' @ env_name runOpt @ ''\<newline>'')\<rparr>)"
  using assms
  by (simp add: build_sbatch_def file_open_def file_write_def file_close_def foldl_write Let_def)

lemma build_srun_file:
  assumes "createTempFileName (is_file w) (temp_file runOpt) = Some (Inr path)"
    and "can_open w path"
  shows "build_srun runOpt sbatchOpt argsDict w =
     Some (Inr (''srun'' @ concat (map (\<lambda>opt. '' '' @ opt) sbatchOpt) @ '' --pty bash''),
       runOpt\<lparr>temp_file := path\<rparr>,
       w\<lparr>files := (files w)(path \<mapsto>
          ''#!/bin/bash\<newline>\<newline>''
          @ ''source activate '' @ env_name runOpt @ ''\<newline>''
          @ command runOpt @ '' '' @ script runOpt
          @ (if str_contains ''ipython'' (command runOpt) then '' --'' else '''')
          @ build_args argsDict @ ''\<newline>''
          @ ''source deactivate '' @ env_name runOpt @ ''\<newline>'')\<rparr>)"
  using assms
  by (simp add: build_srun_def file_open_def file_write_def file_close_def foldl_append Let_def)


text \<open>On a file system with finitely many files, a temporary file name with a dot and
  every path open for writing, the batch builder returns.\<close>

lemma build_sbatch_returns:
  assumes "finite (dom (files w))" and "CHR ''.'' \<in> set (temp_file runOpt)"
    and "\<forall>path. can_open w path"
  shows "\<exists>runOpt' w'. build_sbatch runOpt sbatchOpt argsDict w = Some (Inr (), runOpt', w')"
proof -
  have "{p. is_file w p} = dom (files w)" by (auto simp: is_file_def)
  with assms(1) have "finite {p. is_file w p}" by simp
  from createTempFileName_terminates [OF this assms(2)]
  obtain r where "createTempFileName (is_file w) (temp_file runOpt) = Some (Inr r)" by blast
  from build_sbatch_file [OF this] assms(3) show ?thesis by simp
qed

text \<open>
  C5. With environment \<open>env1\<close>, command \<open>python\<close>, script \<open>train.py\<close>, arguments
  \<open>{"epochs": 10}\<close> and the directive \<open>--time=01:00:00\<close>, the batch builder writes to the
  resolved path, when it can be opened, a file whose lines are, in this order: the shebang,
  an empty line, \<open>#SBATCH --time=01:00:00\<close>, an empty line, \<open>source activate env1\<close>,
  \<open>python train.py --epochs=10\<close> and \<open>source deactivate env1\<close>.
\<close>

theorem build_sbatch_scenario:
  assumes "createTempFileName (is_file w) name = Some (Inr path)"
    and "can_open w path"
  shows "build_sbatch
           \<lparr>interactive = False, env_name = ''env1'', command = ''python'',
            script = ''train.py'', temp_file = name\<rparr>
           [''--time=01:00:00''] [(''epochs'', PyInt 10)] w =
         Some (Inr (),
           \<lparr>interactive = False, env_name = ''env1'', command = ''python'',
            script = ''train.py'', temp_file = path\<rparr>,
           w\<lparr>files := (files w)(path \<mapsto>
              ''#!/bin/bash\<newline>\<newline>#SBATCH --time=01:00:00\<newline>\<newline>source activate env1\<newline>python train.py --epochs=10\<newline>source deactivate env1\<newline>'')\<rparr>)"
proof -
  have args: "build_args [(''epochs'', PyInt 10)] = '' --epochs=10''"
    by (simp add: build_args_def repr_int_def repr_nat.simps)
  have cmd: "\<not> str_contains ''ipython'' ''python''"
    by simp
  show ?thesis
    using assms args cmd
    by (subst build_sbatch_file [where path = path]) simp_all
qed

theorem build_sbatch_scenario_witness:
  "createTempFileName (is_file (world_of [''job.sh''] (child_on [] [] []))) ''job.sh''
     = Some (Inr ''job_1.sh'')
   \<and> can_open (world_of [''job.sh''] (child_on [] [] [])) ''job_1.sh''
   \<and> build_sbatch
           \<lparr>interactive = False, env_name = ''env1'', command = ''python'',
            script = ''train.py'', temp_file = ''job.sh''\<rparr>
           [''--time=01:00:00''] [(''epochs'', PyInt 10)]
           (world_of [''job.sh''] (child_on [] [] [])) =
         Some (Inr (),
           \<lparr>interactive = False, env_name = ''env1'', command = ''python'',
            script = ''train.py'', temp_file = ''job_1.sh''\<rparr>,
           (world_of [''job.sh''] (child_on [] [] []))
             \<lparr>files := (files (world_of [''job.sh''] (child_on [] [] [])))(''job_1.sh'' \<mapsto>
              ''#!/bin/bash\<newline>\<newline>#SBATCH --time=01:00:00\<newline>\<newline>source activate env1\<newline>python train.py --epochs=10\<newline>source deactivate env1\<newline>'')\<rparr>)"
proof -
  have name: "createTempFileName (is_file (world_of [''job.sh''] (child_on [] [] []))) ''job.sh''
     = Some (Inr ''job_1.sh'')"
    by (simp add: createTempFileName_def getLastDot_def slice_from_def slice_to_def
        slice_bound_def probe_loop.simps is_file_def world_of_def repr_nat.simps)
  have opens: "can_open (world_of [''job.sh''] (child_on [] [] [])) ''job_1.sh''"
    by (simp add: world_of_def)
  show ?thesis
    using name opens build_sbatch_scenario [OF name opens] by simp
qed

text \<open>
  C7. In the file either builder writes, the invocation line is the command, a space, the
  script and the serialized arguments, with one \<open> --\<close> put before the whole argument string
  exactly when the command contains \<open>ipython\<close>; the arguments \<open>{"x": "1"}\<close> serialize to
  \<open> --x=1\<close>, so that such a command gets the line ending in \<open> -- --x=1\<close>.
\<close>

theorem ipython_prefix:
  assumes "createTempFileName (is_file w) (temp_file runOpt) = Some (Inr path)"
    and "can_open w path"
  shows "build_sbatch runOpt sbatchOpt argsDict w =
           Some (Inr (), runOpt\<lparr>temp_file := path\<rparr>,
             w\<lparr>files := (files w)(path \<mapsto>
                ''#!/bin/bash\<newline>\<newline>''
                @ concat (map (\<lambda>opt. ''#SBATCH '' @ opt @ ''\<newline>'') sbatchOpt) @ ''\<newline>''
                @ ''source activate '' @ env_name runOpt @ ''\<newline>''
                @ command runOpt @ '' '' @ script runOpt
                @ (if str_contains ''ipython'' (command runOpt) then '' --'' else '''')
                @ build_args argsDict @ ''\<newline>''
                @ ''source deactivate '' @ env_name runOpt @ ''\<newline>'')\<rparr>)
         \<and> build_srun runOpt sbatchOpt argsDict w =
           Some (Inr (''srun'' @ concat (map (\<lambda>opt. '' '' @ opt) sbatchOpt) @ '' --pty bash''),
             runOpt\<lparr>temp_file := path\<rparr>,
             w\<lparr>files := (files w)(path \<mapsto>
                ''#!/bin/bash\<newline>\<newline>''
                @ ''source activate '' @ env_name runOpt @ ''\<newline>''
                @ command runOpt @ '' '' @ script runOpt
                @ (if str_contains ''ipython'' (command runOpt) then '' --'' else '''')
                @ build_args argsDict @ ''\<newline>''
                @ ''source deactivate '' @ env_name runOpt @ ''\<newline>'')\<rparr>)
         \<and> build_args [(''x'', PyStr ''1'')] = '' --x=1''"
proof (intro conjI)
  show "build_args [(''x'', PyStr ''1'')] = '' --x=1''"
    by (simp add: build_args_def)
qed (rule build_sbatch_file [OF assms], rule build_srun_file [OF assms])

theorem ipython_prefix_witness:
  "createTempFileName (is_file (world_of [] (child_on [] [] []))) ''run.sh'' = Some (Inr ''run.sh'')
   \<and> can_open (world_of [] (child_on [] [] [])) ''run.sh''
   \<and> build_sbatch
        \<lparr>interactive = False, env_name = ''env1'', command = ''ipython3'',
         script = ''nb.py'', temp_file = ''run.sh''\<rparr>
        [] [(''x'', PyStr ''1'')] (world_of [] (child_on [] [] [])) =
      Some (Inr (),
        \<lparr>interactive = False, env_name = ''env1'', command = ''ipython3'',
         script = ''nb.py'', temp_file = ''run.sh''\<rparr>,
        (world_of [] (child_on [] [] []))
          \<lparr>files := (files (world_of [] (child_on [] [] [])))(''run.sh'' \<mapsto>
             ''#!/bin/bash\<newline>\<newline>\<newline>source activate env1\<newline>ipython3 nb.py -- --x=1\<newline>source deactivate env1\<newline>'')\<rparr>)
   \<and> build_srun
        \<lparr>interactive = True, env_name = ''env1'', command = ''python'',
         script = ''nb.py'', temp_file = ''run.sh''\<rparr>
        [] [(''x'', PyStr ''1'')] (world_of [] (child_on [] [] [])) =
      Some (Inr ''srun --pty bash'',
        \<lparr>interactive = True, env_name = ''env1'', command = ''python'',
         script = ''nb.py'', temp_file = ''run.sh''\<rparr>,
        (world_of [] (child_on [] [] []))
          \<lparr>files := (files (world_of [] (child_on [] [] [])))(''run.sh'' \<mapsto>
             ''#!/bin/bash\<newline>\<newline>source activate env1\<newline>python nb.py --x=1\<newline>source deactivate env1\<newline>'')\<rparr>)"
proof -
  have name: "createTempFileName (is_file (world_of [] (child_on [] [] []))) ''run.sh''
     = Some (Inr ''run.sh'')"
    by (simp add: createTempFileName_def getLastDot_def slice_from_def slice_to_def
        slice_bound_def probe_loop.simps is_file_def world_of_def)
  have opens: "can_open (world_of [] (child_on [] [] [])) ''run.sh''"
    by (simp add: world_of_def)
  have yes: "str_contains ''ipython'' ''ipython3''" and no: "\<not> str_contains ''ipython'' ''python''"
    by simp_all
  note batch = ipython_prefix [where runOpt = "\<lparr>interactive = False, env_name = ''env1'',
         command = ''ipython3'', script = ''nb.py'', temp_file = ''run.sh''\<rparr>"
      and sbatchOpt = "[]" and argsDict = "[(''x'', PyStr ''1'')]", simplified, OF name opens]
  note inter = ipython_prefix [where runOpt = "\<lparr>interactive = True, env_name = ''env1'',
         command = ''python'', script = ''nb.py'', temp_file = ''run.sh''\<rparr>"
      and sbatchOpt = "[]" and argsDict = "[(''x'', PyStr ''1'')]", simplified, OF name opens]
  show ?thesis
    using name opens batch inter yes no by simp
qed

text \<open>
  C9. The interactive builder returns the command \<open>srun\<close>, then every directive as it is,
  in order, each after one space, then \<open> --pty bash\<close>. The file it writes is the shebang
  followed by the same three lines (activation, invocation, deactivation) the batch
  builder writes after its directive lines; no directive enters the interactive file.
\<close>

theorem build_srun_command_and_script:
  assumes "createTempFileName (is_file w) (temp_file runOpt) = Some (Inr path)"
    and "can_open w path"
  shows "let body = ''source activate '' @ env_name runOpt @ ''\<newline>''
                @ command runOpt @ '' '' @ script runOpt
                @ (if str_contains ''ipython'' (command runOpt) then '' --'' else '''')
                @ build_args argsDict @ ''\<newline>''
                @ ''source deactivate '' @ env_name runOpt @ ''\<newline>''
         in build_srun runOpt sbatchOpt argsDict w =
              Some (Inr (''srun'' @ concat (map (\<lambda>opt. '' '' @ opt) sbatchOpt) @ '' --pty bash''),
                runOpt\<lparr>temp_file := path\<rparr>,
                w\<lparr>files := (files w)(path \<mapsto> ''#!/bin/bash\<newline>\<newline>'' @ body)\<rparr>)
            \<and> build_sbatch runOpt sbatchOpt argsDict w =
              Some (Inr (), runOpt\<lparr>temp_file := path\<rparr>,
                w\<lparr>files := (files w)(path \<mapsto>
                   ''#!/bin/bash\<newline>\<newline>''
                   @ concat (map (\<lambda>opt. ''#SBATCH '' @ opt @ ''\<newline>'') sbatchOpt)
                   @ ''\<newline>'' @ body)\<rparr>)"
  unfolding Let_def
  by (intro conjI) (rule build_srun_file [OF assms], rule build_sbatch_file [OF assms])

theorem build_srun_command_and_script_witness:
  "createTempFileName (is_file (world_of [''job.sh'', ''job_1.sh''] (child_on [] [] []))) ''job.sh''
     = Some (Inr ''job_2.sh'')
   \<and> can_open (world_of [''job.sh'', ''job_1.sh''] (child_on [] [] [])) ''job_2.sh''
   \<and> build_srun
        \<lparr>interactive = True, env_name = ''env1'', command = ''python'',
         script = ''train.py'', temp_file = ''job.sh''\<rparr>
        [''--time=01:00:00'', ''--mem=4G''] [(''epochs'', PyInt 10)]
        (world_of [''job.sh'', ''job_1.sh''] (child_on [] [] [])) =
      Some (Inr ''srun --time=01:00:00 --mem=4G --pty bash'',
        \<lparr>interactive = True, env_name = ''env1'', command = ''python'',
         script = ''train.py'', temp_file = ''job_2.sh''\<rparr>,
        (world_of [''job.sh'', ''job_1.sh''] (child_on [] [] []))
          \<lparr>files := (files (world_of [''job.sh'', ''job_1.sh''] (child_on [] [] [])))(''job_2.sh'' \<mapsto>
             ''#!/bin/bash\<newline>\<newline>source activate env1\<newline>python train.py --epochs=10\<newline>source deactivate env1\<newline>'')\<rparr>)"
proof -
  have name: "createTempFileName
      (is_file (world_of [''job.sh'', ''job_1.sh''] (child_on [] [] []))) ''job.sh''
     = Some (Inr ''job_2.sh'')"
    by (simp add: createTempFileName_def getLastDot_def slice_from_def slice_to_def
        slice_bound_def probe_loop.simps is_file_def world_of_def repr_nat.simps)
  have opens: "can_open (world_of [''job.sh'', ''job_1.sh''] (child_on [] [] [])) ''job_2.sh''"
    by (simp add: world_of_def)
  have args: "build_args [(''epochs'', PyInt 10)] = '' --epochs=10''"
    by (simp add: build_args_def repr_int_def repr_nat.simps)
  have no: "\<not> str_contains ''ipython'' ''python''"
    by simp
  note inst = build_srun_command_and_script [where runOpt = "\<lparr>interactive = True,
         env_name = ''env1'', command = ''python'', script = ''train.py'',
         temp_file = ''job.sh''\<rparr>"
      and sbatchOpt = "[''--time=01:00:00'', ''--mem=4G'']"
      and argsDict = "[(''epochs'', PyInt 10)]", simplified, OF name opens]
  show ?thesis
    using name opens inst args no by (simp add: Let_def)
qed

section \<open>Properties of the launcher\<close>

text \<open>The batch branch in full, once the script is written and the child has run: the
  standard output is captured and printed, the standard error has no pipe, so that what
  the child writes to it arrives on the program's standard error as it is, and nothing
  is left for the second \<open>print\<close>.\<close>

lemma launch_exp_batch:
  assumes "\<not> interactive runOpt"
    and "build_sbatch runOpt sbatchOpt argsDict w = Some (Inr (), runOpt', w')"
    and "spawn w' (py_split (''sbatch '' @ temp_file runOpt')) = Some child"
  shows "launch_exp runOpt sbatchOpt argsDict w =
     (case str_decode (child_stdout child) of
        Inl e \<Rightarrow> Some (Inl e, runOpt', w'\<lparr>sys_stderr := sys_stderr w' @ child_stderr child\<rparr>)
      | Inr s \<Rightarrow> Some (Inr (), runOpt',
          w'\<lparr>sys_stdout := sys_stdout w' @ py_strip s @ ''\<newline>'',
             sys_stderr := sys_stderr w' @ child_stderr child\<rparr>))"
  using assms
  by (simp add: launch_exp_def Popen_def communicate_def relay_def print_stdout_def
      split: sum.splits)



text \<open>
  C1, as the claim states it: the captured standard output is printed exactly when it is
  not empty. A child that exits without writing anything leaves an empty capture, and
  the launcher still prints, so that a line end arrives on the standard output.
\<close>

theorem launch_exp_batch_counterexample:
  "stdout_after
     (launch_exp
        \<lparr>interactive = False, env_name = ''env1'', command = ''python'',
         script = ''train.py'', temp_file = ''job.sh''\<rparr>
        [] []
        (world_of [] (child_on [''sbatch'', ''job.sh''] '''' ''''))) = Some ''\<newline>''
   \<and> stdout_after
     (launch_exp
        \<lparr>interactive = False, env_name = ''env1'', command = ''python'',
         script = ''train.py'', temp_file = ''job.sh''\<rparr>
        [] []
        (world_of [] (child_on [''sbatch'', ''job.sh''] '''' ''''))) \<noteq> Some ''''"
  by (simp add: stdout_after_def launch_exp_def build_sbatch_def createTempFileName_def
      getLastDot_def slice_from_def slice_to_def slice_bound_def probe_loop.simps is_file_def
      world_of_def child_on_def file_open_def file_write_def file_close_def build_args_def
      Popen_def communicate_def relay_def print_stdout_def print_stderr_def
      str_decode_def utf8_valid.simps py_strip_def lstrip_chars.simps leading_def
      whitespace_def py_split_def split_loop.simps)

text \<open>
  C1, amended. In batch mode the launcher runs the submission command, \<open>sbatch\<close> and the
  script path, with the child's standard output captured; a command that cannot be
  started raises. When the child has exited, the capture is decoded as UTF-8: if it
  decodes, the launcher prints the text, stripped of whitespace at both ends and followed
  by a line end, to the standard output, whether or not it is empty, and returns; if it
  does not decode, \<open>UnicodeDecodeError\<close> is raised and nothing is printed.
\<close>

theorem launch_exp_batch_prints_stdout:
  assumes "\<not> interactive runOpt"
    and "build_sbatch runOpt sbatchOpt argsDict w = Some (Inr (), runOpt', w')"
  shows "case spawn w' (py_split (''sbatch '' @ temp_file runOpt')) of
           None \<Rightarrow> launch_exp runOpt sbatchOpt argsDict w = Some (Inl OSError, runOpt', w')
         | Some child \<Rightarrow>
             (case str_decode (child_stdout child) of
                Inr s \<Rightarrow>
                  \<exists>w''. launch_exp runOpt sbatchOpt argsDict w = Some (Inr (), runOpt', w'')
                    \<and> sys_stdout w'' = sys_stdout w' @ py_strip s @ ''\<newline>''
              | Inl e \<Rightarrow>
                  \<exists>w''. launch_exp runOpt sbatchOpt argsDict w = Some (Inl e, runOpt', w'')
                    \<and> sys_stdout w'' = sys_stdout w')"
proof (cases "spawn w' (py_split (''sbatch '' @ temp_file runOpt'))")
  case None
  with assms show ?thesis
    by (simp add: launch_exp_def Popen_def)
next
  case (Some child)
  from launch_exp_batch [OF assms Some] Some show ?thesis
    by (simp split: sum.splits)
qed

theorem launch_exp_batch_prints_stdout_witness:
  "\<not> interactive \<lparr>interactive = False, env_name = ''env1'', command = ''python'',
         script = ''train.py'', temp_file = ''job.sh''\<rparr>
   \<and> str_decode ''  Submitted batch job 42\<newline>'' = Inr ''  Submitted batch job 42\<newline>''
   \<and> stdout_after
     (launch_exp
        \<lparr>interactive = False, env_name = ''env1'', command = ''python'',
         script = ''train.py'', temp_file = ''job.sh''\<rparr>
        [] []
        (world_of [] (child_on [''sbatch'', ''job.sh''] ''  Submitted batch job 42\<newline>'' '''')))
     = Some ''Submitted batch job 42\<newline>''"
proof -
  let ?ro = "\<lparr>interactive = False, env_name = ''env1'', command = ''python'',
         script = ''train.py'', temp_file = ''job.sh''\<rparr>"
  let ?w = "world_of [] (child_on [''sbatch'', ''job.sh''] ''  Submitted batch job 42\<newline>'' '''')"
  let ?w' = "?w\<lparr>files := (files ?w)(''job.sh'' \<mapsto>
      ''#!/bin/bash\<newline>\<newline>\<newline>source activate env1\<newline>python train.py\<newline>source deactivate env1\<newline>'')\<rparr>"
  let ?child = "\<lparr>child_stdout = ''  Submitted batch job 42\<newline>'', child_stderr = ''''\<rparr>"
  have mode: "\<not> interactive ?ro" by simp
  have name: "createTempFileName (is_file ?w) (temp_file ?ro) = Some (Inr ''job.sh'')"
    by (simp add: createTempFileName_def getLastDot_def slice_from_def slice_to_def
        slice_bound_def probe_loop.simps is_file_def world_of_def)
  have opens: "can_open ?w ''job.sh''" by (simp add: world_of_def)
  have built: "build_sbatch ?ro [] [] ?w = Some (Inr (), ?ro\<lparr>temp_file := ''job.sh''\<rparr>, ?w')"
    using build_sbatch_file [OF name opens, of "[]" "[]"] by (simp add: build_args_def)
  have split: "py_split (''sbatch '' @ temp_file (?ro\<lparr>temp_file := ''job.sh''\<rparr>))
      = [''sbatch'', ''job.sh'']"
    by (simp add: py_split_def split_loop.simps leading_def whitespace_def)
  have child: "spawn ?w' (py_split (''sbatch '' @ temp_file (?ro\<lparr>temp_file := ''job.sh''\<rparr>)))
      = Some ?child"
    unfolding split by (simp add: world_of_def child_on_def)
  have decoded: "str_decode (child_stdout ?child) = Inr ''  Submitted batch job 42\<newline>''"
    by (simp add: str_decode_def utf8_valid.simps)
  have stripped: "py_strip ''  Submitted batch job 42\<newline>'' = ''Submitted batch job 42''"
    by (simp add: py_strip_def lstrip_chars.simps leading_def whitespace_def)
  from launch_exp_batch_prints_stdout [OF mode built]
  have "\<exists>w''. launch_exp ?ro [] [] ?w = Some (Inr (), ?ro\<lparr>temp_file := ''job.sh''\<rparr>, w'')
      \<and> sys_stdout w'' = sys_stdout ?w' @ py_strip ''  Submitted batch job 42\<newline>'' @ ''\<newline>''"
    unfolding child option.case decoded sum.case .
  then have "stdout_after (launch_exp ?ro [] [] ?w) = Some ''Submitted batch job 42\<newline>''"
    by (auto simp: stdout_after_def stripped world_of_def)
  with mode decoded show ?thesis by simp
qed




end
